theory Spec2Isabelle
  imports Main "HOL-Library.Multiset"
begin

section \<open>Text\<close>

text \<open>
  A JavaScript string is a sequence of UTF-16 code units; \<open>length\<close> is the
  source's \<^verbatim>\<open>.length\<close>. Literals of the source that are plain ASCII are written
  \<open>str ''...''\<close>; the others are given by their code units.

  The built-ins of the host that act on text by rules the program does not hold are
  parameters of the functions that call them: \<open>lower\<close> is
  \<^verbatim>\<open>String.prototype.toLowerCase\<close>, \<open>collate\<close> is \<^verbatim>\<open>localeCompare\<close>, and \<open>regexp\<close> is
  the regular-expression engine.
\<close>

type_synonym jsstring = "nat list"

definition str :: "string \<Rightarrow> jsstring" where
  "str s = map of_char s"

text \<open>\<^verbatim>\<open>a || b\<close> on values that are a string or absent: the empty string is falsy.\<close>

definition truthy_str :: "jsstring option \<Rightarrow> bool" where
  "truthy_str a = (case a of None \<Rightarrow> False | Some s \<Rightarrow> s \<noteq> [])"

definition or_str :: "jsstring option \<Rightarrow> jsstring option \<Rightarrow> jsstring option" where
  "or_str a b = (if truthy_str a then a else b)"

section \<open>Exclusion patterns\<close>

text \<open>
  \<^verbatim>\<open>new RegExp('^' + p.replace(/\*/g, '.*') + '$', 'i').test(name)\<close>. The source
  text of the expression is built as the code builds it. The engine is the host's:
  \<open>regexp src name\<close> is what constructing the expression from \<open>src\<close> with the flag
  \<^verbatim>\<open>i\<close> and testing \<open>name\<close> gives, \<open>Inl SyntaxError\<close> when the constructor throws.
\<close>

definition star_to_dotstar :: "jsstring \<Rightarrow> jsstring" where
  "star_to_dotstar p = concat (map (\<lambda>c. if c = 42 then [46, 42] else [c]) p)"

definition rx_source :: "jsstring \<Rightarrow> jsstring" where
  "rx_source p = [94] @ star_to_dotstar p @ [36]"

datatype js_error = SyntaxError

type_synonym regexp = "jsstring \<Rightarrow> jsstring \<Rightarrow> js_error + bool"

text \<open>
  \<^verbatim>\<open>patterns.some(...)\<close> stops at the first pattern that matches; a pattern that
  does not compile throws out of it.
\<close>

fun matchesPattern :: "regexp \<Rightarrow> jsstring \<Rightarrow> jsstring list \<Rightarrow> js_error + bool" where
  "matchesPattern regexp name [] = Inr False"
| "matchesPattern regexp name (p # ps) =
     (case regexp (rx_source p) name of
        Inl err \<Rightarrow> Inl err
      | Inr True \<Rightarrow> Inr True
      | Inr False \<Rightarrow> matchesPattern regexp name ps)"

section \<open>Repository records\<close>

text \<open>
  The object \<open>normalizeRepo\<close> reads: the REST listing's shape, with the GraphQL
  fields it falls back to. An absent or \<^verbatim>\<open>null\<close> field is \<open>None\<close>. A
  timestamp is kept as the instant (milliseconds since the epoch) that
  \<^verbatim>\<open>new Date(iso)\<close> reads from it.
\<close>

record api_repo =
  api_name :: jsstring
  api_description :: "jsstring option"
  api_html_url :: "jsstring option"
  api_url :: "jsstring option"
  api_homepage :: "jsstring option"
  api_homepageUrl :: "jsstring option"
  api_stargazers_count :: "int option"
  api_forks_count :: "int option"
  api_pushed_at :: "int option"
  api_updated_at :: "int option"
  api_language :: "jsstring option"
  api_primaryLanguage :: "jsstring option"
  api_topics :: "jsstring list option"
  api_repository_topics :: "jsstring list option"
  api_fork :: bool
  api_archived :: bool

record repo =
  name :: jsstring
  description :: jsstring
  html_url :: "jsstring option"
  homepage :: "jsstring option"
  stars :: int
  forks :: int
  updated :: "int option"
  language :: jsstring
  topics :: "jsstring list"

definition or_count :: "int option \<Rightarrow> int" where
  "or_count a = (case a of None \<Rightarrow> 0 | Some n \<Rightarrow> n)"

definition or_time :: "int option \<Rightarrow> int option \<Rightarrow> int option" where
  "or_time a b = (case a of None \<Rightarrow> b | Some t \<Rightarrow> Some t)"

definition normalizeRepo :: "api_repo \<Rightarrow> repo" where
  "normalizeRepo r =
     \<lparr> name = api_name r,
       description = (case or_str (api_description r) (Some []) of None \<Rightarrow> [] | Some s \<Rightarrow> s),
       html_url = or_str (api_html_url r) (api_url r),
       homepage =
         (let h = or_str (api_homepage r) (api_homepageUrl r)
          in if truthy_str h then h else None),
       stars = or_count (api_stargazers_count r),
       forks = or_count (api_forks_count r),
       updated = or_time (api_pushed_at r) (api_updated_at r),
       language =
         (case or_str (or_str (api_language r) (api_primaryLanguage r)) (Some (str ''Unknown'')) of
            None \<Rightarrow> [] | Some s \<Rightarrow> s),
       topics =
         (case api_topics r of
            Some ts \<Rightarrow> ts
          | None \<Rightarrow> (case api_repository_topics r of Some ts \<Rightarrow> ts | None \<Rightarrow> [])) \<rparr>"

section \<open>Deduplication\<close>

text \<open>
  \<^verbatim>\<open>arr.filter\<close> with the set \<^verbatim>\<open>seen\<close> of names met so far, threaded through
  the traversal.
\<close>

fun dedupe_from :: "jsstring set \<Rightarrow> repo list \<Rightarrow> repo list" where
  "dedupe_from seen [] = []"
| "dedupe_from seen (r # rs) =
     (if name r \<in> seen then dedupe_from seen rs
      else r # dedupe_from (insert (name r) seen) rs)"

definition dedupeByName :: "repo list \<Rightarrow> repo list" where
  "dedupeByName arr = dedupe_from {} arr"

section \<open>Cache\<close>

text \<open>
  The one slot of \<^verbatim>\<open>localStorage\<close> under \<^verbatim>\<open>CACHE_KEY\<close>. Its text is kept as what
  \<^verbatim>\<open>JSON.parse\<close> makes of it: \<open>Corrupt\<close> when parsing throws (or reading a field
  of the parsed value does), otherwise the two fields \<^verbatim>\<open>ts\<close> and \<^verbatim>\<open>data\<close>, each
  \<open>None\<close> when missing or \<^verbatim>\<open>null\<close>. \<^verbatim>\<open>JSON.stringify\<close> followed by
  \<^verbatim>\<open>JSON.parse\<close> gives a record set back field by field. \<open>readable\<close> and
  \<open>writable\<close> say whether \<^verbatim>\<open>getItem\<close> and \<^verbatim>\<open>setItem\<close> return rather than throw
  (storage disabled, quota exceeded).
\<close>

datatype stored = Corrupt | Entry "int option" "repo list option"

record storage =
  slot :: "stored option"
  readable :: bool
  writable :: bool

definition CACHE_TTL :: int where
  "CACHE_TTL = 1000 * 60 * 60"

definition saveCache :: "int \<Rightarrow> repo list \<Rightarrow> storage \<Rightarrow> storage" where
  "saveCache now obj st =
     (if writable st then st\<lparr>slot := Some (Entry (Some now) (Some obj))\<rparr> else st)"

definition loadCache :: "int \<Rightarrow> storage \<Rightarrow> repo list option" where
  "loadCache now st =
     (if \<not> readable st then None
      else case slot st of
        None \<Rightarrow> None
      | Some Corrupt \<Rightarrow> None
      | Some (Entry ts dat) \<Rightarrow>
          (case ts of
             None \<Rightarrow> None
           | Some t \<Rightarrow>
               if t = 0 then None
               else (case dat of
                 None \<Rightarrow> None
               | Some rs \<Rightarrow> if now - t > CACHE_TTL then None else Some rs)))"

section \<open>Merge-time order\<close>

text \<open>
  \<^verbatim>\<open>Array.prototype.sort\<close> is stable, and for a comparator that is a consistent
  ordering it returns the array ordered by it: a stable insertion sort, the
  comparator's result read as the source's \<^verbatim>\<open>sort\<close> reads it (at most zero: the
  first argument stays in front).
\<close>

fun insort_cmp :: "('a \<Rightarrow> 'a \<Rightarrow> int) \<Rightarrow> 'a \<Rightarrow> 'a list \<Rightarrow> 'a list" where
  "insort_cmp cmp x [] = [x]"
| "insort_cmp cmp x (y # ys) =
     (if cmp x y \<le> 0 then x # y # ys else y # insort_cmp cmp x ys)"

definition sort_cmp :: "('a \<Rightarrow> 'a \<Rightarrow> int) \<Rightarrow> 'a list \<Rightarrow> 'a list" where
  "sort_cmp cmp xs = foldr (insort_cmp cmp) xs []"

text \<open>\<^verbatim>\<open>new Date(null)\<close> is the epoch.\<close>

definition date_ms :: "int option \<Rightarrow> int" where
  "date_ms u = (case u of None \<Rightarrow> 0 | Some t \<Rightarrow> t)"

definition pinned_rank :: "repo list \<Rightarrow> repo \<Rightarrow> int" where
  "pinned_rank pinned a = (if \<exists>p\<in>set pinned. name p = name a then 0 else 1)"

definition merge_compare :: "bool \<Rightarrow> repo list \<Rightarrow> repo \<Rightarrow> repo \<Rightarrow> int" where
  "merge_compare pinFirst pinned a b =
     (let ai = pinned_rank pinned a; bi = pinned_rank pinned b
      in if pinFirst \<and> ai \<noteq> bi then ai - bi
         else if stars b \<noteq> stars a then stars b - stars a
         else date_ms (updated b) - date_ms (updated a))"

section \<open>Initialisation\<close>

text \<open>
  \<open>profileUrl\<close> is the path name that \<^verbatim>\<open>new URL(profileUrl)\<close> reads from the
  option, \<open>None\<close> when the constructor throws.
\<close>

record config =
  profileUrl :: "jsstring option"
  exclude :: "jsstring list"
  pinnedFirst :: bool
  githubToken :: "jsstring option"

fun split_on :: "nat \<Rightarrow> jsstring \<Rightarrow> jsstring list" where
  "split_on sep [] = [[]]"
| "split_on sep (c # cs) =
     (if c = sep then [] # split_on sep cs
      else (case split_on sep cs of [] \<Rightarrow> [[c]] | w # ws \<Rightarrow> (c # w) # ws))"

definition parseGithubProfile :: "jsstring option \<Rightarrow> jsstring option" where
  "parseGithubProfile url =
     (case url of
        None \<Rightarrow> None
      | Some pathname \<Rightarrow>
          (case filter (\<lambda>part. part \<noteq> []) (split_on 47 pathname) of
             [] \<Rightarrow> None
           | part # _ \<Rightarrow> Some part))"

text \<open>
  What the page and the network give one call: whether the element
  \<^verbatim>\<open>projects-root\<close> exists, the storage, \<^verbatim>\<open>Date.now()\<close> when the cache is read and
  when the fetch has settled, what \<open>fetchRepos\<close> resolves to (\<open>None\<close>: it throws, on a
  network error or a response that is not ok), and the nodes the GraphQL request of
  \<open>fetchPinned\<close> maps (\<open>None\<close>: the request fails, is not ok or holds no nodes).
\<close>

record env =
  root_present :: bool
  store :: storage
  clock_start :: int
  clock_settled :: int
  rest_result :: "api_repo list option"
  graphql_result :: "api_repo list option"

definition fetchPinned :: "jsstring option \<Rightarrow> env \<Rightarrow> api_repo list option" where
  "fetchPinned token e = (if \<not> truthy_str token then None else graphql_result e)"

text \<open>
  The predicate of \<^verbatim>\<open>fetched.filter\<close>:
  \<^verbatim>\<open>!r.fork && !r.archived && !matchesPattern(r.name, exclude)\<close>, the pattern test
  run only for a repository that is neither a fork nor archived.
\<close>

definition keep_fetched :: "regexp \<Rightarrow> jsstring list \<Rightarrow> api_repo \<Rightarrow> js_error + bool" where
  "keep_fetched regexp patterns r =
     (if api_fork r \<or> api_archived r then Inr False
      else (case matchesPattern regexp (api_name r) patterns of
              Inl err \<Rightarrow> Inl err
            | Inr m \<Rightarrow> Inr (\<not> m)))"

text \<open>\<^verbatim>\<open>Array.prototype.filter\<close> with a predicate that may throw: the first throw ends it.\<close>

fun filter_throwing :: "('a \<Rightarrow> js_error + bool) \<Rightarrow> 'a list \<Rightarrow> js_error + 'a list" where
  "filter_throwing f [] = Inr []"
| "filter_throwing f (x # xs) =
     (case f x of
        Inl err \<Rightarrow> Inl err
      | Inr b \<Rightarrow>
          (case filter_throwing f xs of
             Inl err \<Rightarrow> Inl err
           | Inr ys \<Rightarrow> Inr (if b then x # ys else ys)))"

definition placeholder :: "int \<Rightarrow> repo" where
  "placeholder now =
     \<lparr> name = str ''profile'', description = str ''Fallback sample project'',
       html_url = Some (str ''#''), homepage = None, stars = 0, forks = 0,
       updated = Some now, language = str ''JS'', topics = [str ''fallback''] \<rparr>"

datatype init_error = InvalidProfileUrl | RootNotFound

text \<open>
  The \<^verbatim>\<open>catch\<close> block: the record set that \<open>loadCache\<close> returned before the fetch, or
  the placeholder alone.
\<close>

definition fallback :: "repo list option \<Rightarrow> int \<Rightarrow> repo list" where
  "fallback repos now = (case repos of None \<Rightarrow> [placeholder now] | Some cached \<Rightarrow> cached)"

text \<open>
  The result is the record set \<^verbatim>\<open>repos\<close> that the grid is rendered from, with the
  storage as the call leaves it; \<open>Inl\<close> is an error thrown out of the call. Whatever is
  thrown inside the \<^verbatim>\<open>try\<close> block (by \<open>fetchRepos\<close>, or by an exclusion pattern that
  does not compile) ends in the \<^verbatim>\<open>catch\<close> block.
\<close>

definition initProjects :: "regexp \<Rightarrow> config \<Rightarrow> env \<Rightarrow> init_error + repo list \<times> storage" where
  "initProjects regexp cfg e =
     (case parseGithubProfile (profileUrl cfg) of
        None \<Rightarrow> Inl InvalidProfileUrl
      | Some username \<Rightarrow>
          if \<not> root_present e then Inl RootNotFound
          else
            (let repos = loadCache (clock_start e) (store e)
             in case rest_result e of
               None \<Rightarrow> Inr (fallback repos (clock_settled e), store e)
             | Some fetched \<Rightarrow>
                 (case filter_throwing (keep_fetched regexp (exclude cfg)) fetched of
                    Inl err \<Rightarrow> Inr (fallback repos (clock_settled e), store e)
                  | Inr kept \<Rightarrow>
                      (let mapped = map normalizeRepo kept;
                           pinned = (case fetchPinned (githubToken cfg) e of
                                       None \<Rightarrow> []
                                     | Some nodes \<Rightarrow> map normalizeRepo nodes);
                           merged = dedupeByName (pinned @ mapped);
                           sorted = sort_cmp (merge_compare (pinnedFirst cfg) pinned) merged
                       in Inr (sorted, saveCache (clock_settled e) sorted (store e))))))"

section \<open>Cards\<close>

fun show_nat :: "nat \<Rightarrow> jsstring" where
  "show_nat n = (if n < 10 then [48 + n] else show_nat (n div 10) @ [48 + n mod 10])"

declare show_nat.simps [simp del]

text \<open>A number in a template literal, for the integers.\<close>

definition show_int :: "int \<Rightarrow> jsstring" where
  "show_int i = (if i < 0 then 45 # show_nat (nat (- i)) else show_nat (nat i))"

definition relativeTime :: "int \<Rightarrow> int option \<Rightarrow> jsstring" where
  "relativeTime now stamp =
     (case stamp of
        None \<Rightarrow> []
      | Some then_ms \<Rightarrow>
          (let diff = now - then_ms;
               sec = diff div 1000
           in if sec < 60 then show_int sec @ str ''s''
              else let min = sec div 60
              in if min < 60 then show_int min @ str ''m''
              else let hr = min div 60
              in if hr < 24 then show_int hr @ str ''h''
              else let days = hr div 24
              in if days < 30 then show_int days @ str ''d''
              else let months = days div 30
              in if months < 12 then show_int months @ str ''mo''
              else let years = months div 12
              in show_int years @ str ''y''))"

text \<open>
  The marker that \<open>truncate_text\<close> appends, as the source file holds it: the three code
  units U+201A, U+00C4, U+00B6.
\<close>

definition ellipsis_marker :: jsstring where
  "ellipsis_marker = [8218, 196, 182]"

text \<open>\<^verbatim>\<open>str.slice(0, k)\<close>: a negative \<open>k\<close> counts from the end.\<close>

definition slice0 :: "jsstring \<Rightarrow> int \<Rightarrow> jsstring" where
  "slice0 s k = (if k < 0 then take (nat (int (length s) + k)) s else take (nat k) s)"

definition truncate_text :: "jsstring \<Rightarrow> nat \<Rightarrow> jsstring" where
  "truncate_text s n =
     (if s = [] then []
      else if length s > n then slice0 s (int n - 1) @ ellipsis_marker else s)"

definition replace_all :: "nat \<Rightarrow> jsstring \<Rightarrow> jsstring \<Rightarrow> jsstring" where
  "replace_all c rep s = concat (map (\<lambda>x. if x = c then rep else [x]) s)"

definition escapeHtml :: "jsstring \<Rightarrow> jsstring" where
  "escapeHtml s =
     replace_all 34 (str ''&quot;'')
       (replace_all 62 (str ''&gt;'')
         (replace_all 60 (str ''&lt;'')
           (replace_all 38 (str ''&amp;'') s)))"

text \<open>
  The template literal assigned to \<^verbatim>\<open>innerHTML\<close>, as the list of its parts: the
  fixed text and, between, what each \<^verbatim>\<open>${...}\<close> evaluates to. An absent
  \<^verbatim>\<open>html_url\<close> prints as \<^verbatim>\<open>undefined\<close>.
\<close>

definition demo_link :: "jsstring option \<Rightarrow> jsstring" where
  \<open>demo_link h =
     (case h of
        None \<Rightarrow> []
      | Some u \<Rightarrow>
          if u = [] then []
          else str ''<a class="btn btn-ghost" href="'' @ u
                 @ str ''" target="_blank" rel="noopener">Live Demo</a>'')\<close>

definition card_parts :: "int \<Rightarrow> repo \<Rightarrow> jsstring list" where
  \<open>card_parts now r =
     [ str ''\<newline>    <div class="card-body">\<newline>      <div class="card-head">\<newline>        <h3 class="project-title">'',
       name r,
       str ''</h3>\<newline>        <div class="project-topics"></div>\<newline>      </div>\<newline>      <p class="project-desc" title="'',
       escapeHtml (description r),
       str ''">'',
       escapeHtml (truncate_text (description r) 120),
       str ''</p>\<newline>      <div class="project-meta">\<newline>        <span class="meta-item" title="Stars">''
         @ [8218, 8800, 234, 32],
       show_int (stars r),
       str ''</span>\<newline>        <span class="meta-item" title="Forks">''
         @ [63743, 252, 231, 165, 32],
       show_int (forks r),
       str ''</span>\<newline>        <span class="meta-item" title="Updated">''
         @ [63743, 252, 239, 237, 32],
       relativeTime now (updated r),
       str ''</span>\<newline>        <span class="meta-lang" title="Primary language">'',
       escapeHtml (if language r = [] then [8218, 196, 238] else language r),
       str ''</span>\<newline>      </div>\<newline>      <div class="project-actions">\<newline>        <a class="btn btn-primary" href="'',
       (case html_url r of None \<Rightarrow> str ''undefined'' | Some u \<Rightarrow> u),
       str ''" target="_blank" rel="noopener">View Code</a>\<newline>        '',
       demo_link (homepage r),
       str ''\<newline>      </div>\<newline>    </div>\<newline>  '' ]\<close>

text \<open>
  A card: the markup assigned to \<^verbatim>\<open>innerHTML\<close>, and the chips appended to
  \<^verbatim>\<open>.project-topics\<close>, each the \<^verbatim>\<open>textContent\<close> of a new element (text, never
  parsed as markup).
\<close>

record card =
  innerHTML :: jsstring
  chips :: "jsstring list"

definition buildCard :: "int \<Rightarrow> repo \<Rightarrow> card" where
  "buildCard now r = \<lparr> innerHTML = concat (card_parts now r), chips = take 3 (topics r) \<rparr>"

section \<open>Filter panel\<close>

text \<open>
  The values read from the controls on a filter pass: \<^verbatim>\<open>search.value\<close>, the selected
  language, topic and sort mode, and whether the pinned-only box is checked.
\<close>

record controls =
  search_value :: jsstring
  lang_value :: jsstring
  topic_value :: jsstring
  sort_value :: jsstring
  pinnedOnly_checked :: bool

definition white_space :: "nat \<Rightarrow> bool" where
  "white_space c =
     (c \<in> {9, 10, 11, 12, 13, 32, 160, 5760, 8232, 8233, 8239, 8287, 12288, 65279}
      \<or> (8192 \<le> c \<and> c \<le> 8202))"

definition trim :: "jsstring \<Rightarrow> jsstring" where
  "trim s = rev (dropWhile white_space (rev (dropWhile white_space s)))"

fun includes_str :: "jsstring \<Rightarrow> jsstring \<Rightarrow> bool" where
  "includes_str [] q = (q = [])"
| "includes_str (c # cs) q = (take (length q) (c # cs) = q \<or> includes_str cs q)"

fun join_space :: "jsstring list \<Rightarrow> jsstring" where
  "join_space [] = []"
| "join_space [t] = t"
| "join_space (t # u # ts) = t @ [32] @ join_space (u # ts)"

definition haystack :: "repo \<Rightarrow> jsstring" where
  "haystack r = name r @ [32] @ description r @ [32] @ join_space (topics r)"

datatype view = Empty_state jsstring | Grid "card list"

definition renderGrid :: "int \<Rightarrow> repo list \<Rightarrow> view" where
  "renderGrid now list =
     (if list = [] then Empty_state (str ''No projects match your filters.'')
      else Grid (map (buildCard now) list))"

text \<open>
  The records a filter pass hands to \<open>renderGrid\<close>; \<open>repos\<close> is the record set of
  \<open>initProjects\<close>.
\<close>

definition filtered ::
  "(jsstring \<Rightarrow> jsstring) \<Rightarrow> bool \<Rightarrow> repo list \<Rightarrow> controls \<Rightarrow> repo list" where
  "filtered lower pinFirst repos ui =
     (let q = trim (lower (search_value ui));
          lang = lang_value ui;
          topic = topic_value ui;
          out = repos;
          out = (if pinFirst \<and> pinnedOnly_checked ui
                 then filter (\<lambda>r. \<exists>p\<in>set (take 10 repos). name p = name r) out else out);
          out = (if q \<noteq> [] then filter (\<lambda>r. includes_str (lower (haystack r)) q) out else out);
          out = (if lang \<noteq> []
                 then filter (\<lambda>r. lower (language r) = lower lang) out else out);
          out = (if topic \<noteq> []
                 then filter (\<lambda>r. lower topic \<in> set (map lower (topics r))) out
                 else out)
      in out)"

definition sorted_for :: "(jsstring \<Rightarrow> jsstring \<Rightarrow> int) \<Rightarrow> jsstring \<Rightarrow> repo list \<Rightarrow> repo list" where
  "sorted_for collate mode out =
     (if mode = str ''stars'' then sort_cmp (\<lambda>a b. stars b - stars a) out
      else if mode = str ''updated''
        then sort_cmp (\<lambda>a b. date_ms (updated b) - date_ms (updated a)) out
      else if mode = str ''az'' then sort_cmp (\<lambda>a b. collate (name a) (name b)) out
      else out)"

definition applyFilters ::
  "(jsstring \<Rightarrow> jsstring) \<Rightarrow> (jsstring \<Rightarrow> jsstring \<Rightarrow> int) \<Rightarrow> int \<Rightarrow> bool \<Rightarrow> repo list
     \<Rightarrow> controls \<Rightarrow> view" where
  "applyFilters lower collate now pinFirst repos ui =
     renderGrid now (sorted_for collate (sort_value ui) (filtered lower pinFirst repos ui))"

section \<open>The specification's notions\<close>

text \<open>
  The units of the relative-time formatter as the specification lists them: seconds,
  minutes, hours, days, months of 30 days, years of 12 months.
\<close>

datatype time_unit = Seconds | Minutes | Hours | Days | Months | Years

fun unit_ms :: "time_unit \<Rightarrow> int" where
  "unit_ms Seconds = 1000"
| "unit_ms Minutes = 60 * 1000"
| "unit_ms Hours = 60 * (60 * 1000)"
| "unit_ms Days = 24 * (60 * (60 * 1000))"
| "unit_ms Months = 30 * (24 * (60 * (60 * 1000)))"
| "unit_ms Years = 12 * (30 * (24 * (60 * (60 * 1000))))"

fun unit_suffix :: "time_unit \<Rightarrow> jsstring" where
  "unit_suffix Seconds = str ''s''"
| "unit_suffix Minutes = str ''m''"
| "unit_suffix Hours = str ''h''"
| "unit_suffix Days = str ''d''"
| "unit_suffix Months = str ''mo''"
| "unit_suffix Years = str ''y''"

text \<open>
  The filter as the specification words it: the query is a substring of name,
  description and topics without regard to case, the selected language is the
  record's, the selected topic is one of the record's.
\<close>

definition claimed_keep :: "(jsstring \<Rightarrow> jsstring) \<Rightarrow> controls \<Rightarrow> repo \<Rightarrow> bool" where
  "claimed_keep lower ui r =
     (includes_str (lower (haystack r)) (lower (search_value ui))
      \<and> (lang_value ui \<noteq> [] \<longrightarrow> lower (language r) = lower (lang_value ui))
      \<and> (topic_value ui \<noteq> [] \<longrightarrow>
            lower (topic_value ui) \<in> set (map lower (topics r))))"

text \<open>
  The same with what the code adds: the query is trimmed, and the pinned-only box,
  where \<^verbatim>\<open>pinnedFirst\<close> is set, admits the names of the first ten records only.
\<close>

definition passes ::
  "(jsstring \<Rightarrow> jsstring) \<Rightarrow> bool \<Rightarrow> repo list \<Rightarrow> controls \<Rightarrow> repo \<Rightarrow> bool" where
  "passes lower pinFirst repos ui r =
     ((pinFirst \<and> pinnedOnly_checked ui \<longrightarrow> name r \<in> name ` set (take 10 repos))
      \<and> includes_str (lower (haystack r)) (trim (lower (search_value ui)))
      \<and> (lang_value ui \<noteq> [] \<longrightarrow> lower (language r) = lower (lang_value ui))
      \<and> (topic_value ui \<noteq> [] \<longrightarrow>
            lower (topic_value ui) \<in> set (map lower (topics r))))"

section \<open>Sample records\<close>

definition sample :: "string \<Rightarrow> int \<Rightarrow> int option \<Rightarrow> repo" where
  "sample n s u =
     \<lparr> name = str n, description = [], html_url = None, homepage = None, stars = s,
       forks = 0, updated = u, language = [], topics = [] \<rparr>"

definition tagged :: "string \<Rightarrow> string \<Rightarrow> string \<Rightarrow> repo" where
  "tagged n l t = (sample n 0 None)\<lparr> language := str l, topics := [str t] \<rparr>"

definition api_sample :: "string \<Rightarrow> api_repo" where
  "api_sample n =
     \<lparr> api_name = str n, api_description = None, api_html_url = None, api_url = None,
       api_homepage = None, api_homepageUrl = None, api_stargazers_count = None,
       api_forks_count = None, api_pushed_at = None, api_updated_at = None,
       api_language = None, api_primaryLanguage = None, api_topics = None,
       api_repository_topics = None, api_fork = False, api_archived = False \<rparr>"

definition sample_config :: "string list \<Rightarrow> string option \<Rightarrow> config" where
  "sample_config pats token =
     \<lparr> profileUrl = Some (str ''/octocat''), exclude = map str pats, pinnedFirst = True,
       githubToken = map_option str token \<rparr>"

definition sample_storage :: "stored option \<Rightarrow> storage" where
  "sample_storage v = \<lparr> slot = v, readable = True, writable = True \<rparr>"

definition sample_env ::
  "stored option \<Rightarrow> int \<Rightarrow> api_repo list option \<Rightarrow> api_repo list option \<Rightarrow> env" where
  "sample_env v now rest gql =
     \<lparr> root_present = True, store = sample_storage v, clock_start = now,
       clock_settled = now + 1, rest_result = rest, graphql_result = gql \<rparr>"

definition sample_controls :: "string \<Rightarrow> string \<Rightarrow> bool \<Rightarrow> controls" where
  "sample_controls q l box =
     \<lparr> search_value = str q, lang_value = str l, topic_value = [], sort_value = str ''pinned'',
       pinnedOnly_checked = box \<rparr>"

text \<open>
  Stand-ins for the host's built-ins on the sample inputs: lower case as
  \<^verbatim>\<open>toLowerCase\<close> has it on ASCII text, and two engines, one that finds no match in
  any test and one that finds a match in every test.
\<close>

definition lower_unit :: "nat \<Rightarrow> nat" where
  "lower_unit c = (if 65 \<le> c \<and> c \<le> 90 then c + 32 else c)"

definition ascii_lower :: "jsstring \<Rightarrow> jsstring" where
  "ascii_lower s = map lower_unit s"

definition no_match :: regexp where
  "no_match src n = Inr False"

definition every_match :: regexp where
  "every_match src n = Inr True"

definition eleven :: "repo list" where
  "eleven = map (\<lambda>n. sample n 0 None)
     [''a'', ''b'', ''c'', ''d'', ''e'', ''f'', ''g'', ''h'', ''i'', ''j'', ''k'']"

section \<open>Evaluation\<close>

text \<open>The equations that evaluate the model on a concrete input.\<close>

lemmas model_defs =
  initProjects_def parseGithubProfile_def loadCache_def saveCache_def fetchPinned_def
  keep_fetched_def placeholder_def fallback_def normalizeRepo_def dedupeByName_def sort_cmp_def
  merge_compare_def pinned_rank_def date_ms_def rx_source_def star_to_dotstar_def
  truthy_str_def or_str_def or_count_def or_time_def CACHE_TTL_def str_def Let_def

lemmas sample_defs =
  sample_def tagged_def api_sample_def sample_config_def sample_storage_def sample_env_def
  sample_controls_def eleven_def ascii_lower_def lower_unit_def no_match_def every_match_def

lemmas panel_defs =
  filtered_def claimed_keep_def passes_def haystack_def trim_def white_space_def
  applyFilters_def renderGrid_def sorted_for_def

section \<open>Properties of deduplication\<close>

lemma dedupe_from_nths:
  "dedupe_from seen rs =
     nths rs {i. name (rs ! i) \<notin> seen \<and> (\<forall>j<i. name (rs ! j) \<noteq> name (rs ! i))}"
proof (induction rs arbitrary: seen)
  case Nil
  then show ?case by simp
next
  case (Cons r rs)
  have split: "\<And>P j. (\<forall>k<Suc j. P k) = (P 0 \<and> (\<forall>k<j. P (Suc k)))"
    by (auto simp: less_Suc_eq_0_disj)
  show ?case
  proof (cases "name r \<in> seen")
    case True
    have "{j. Suc j \<in> {i. name ((r # rs) ! i) \<notin> seen
              \<and> (\<forall>j<i. name ((r # rs) ! j) \<noteq> name ((r # rs) ! i))}}
        = {i. name (rs ! i) \<notin> seen \<and> (\<forall>j<i. name (rs ! j) \<noteq> name (rs ! i))}"
      using True by (auto simp: split)
    with True show ?thesis by (simp add: nths_Cons Cons.IH)
  next
    case False
    have "{j. Suc j \<in> {i. name ((r # rs) ! i) \<notin> seen
              \<and> (\<forall>j<i. name ((r # rs) ! j) \<noteq> name ((r # rs) ! i))}}
        = {i. name (rs ! i) \<notin> insert (name r) seen
              \<and> (\<forall>j<i. name (rs ! j) \<noteq> name (rs ! i))}"
      by (auto simp: split)
    with False show ?thesis by (simp add: nths_Cons Cons.IH)
  qed
qed

lemma dedupe_from_notin: "x \<in> set (dedupe_from seen rs) \<Longrightarrow> name x \<notin> seen"
  by (induction rs arbitrary: seen) (auto split: if_splits)

lemma dedupe_from_distinct: "distinct (map name (dedupe_from seen rs))"
  by (induction rs arbitrary: seen) (auto dest: dedupe_from_notin)

lemma dedupe_from_append:
  "dedupe_from seen (xs @ ys) = dedupe_from seen xs @ dedupe_from (seen \<union> name ` set xs) ys"
  by (induction xs arbitrary: seen) (auto simp: insert_absorb)

lemma dedupe_from_filter:
  "dedupe_from (seen \<union> t) rs = dedupe_from t (filter (\<lambda>r. name r \<notin> seen) rs)"
  by (induction rs arbitrary: t) (auto simp flip: Un_insert_right)

lemma dedupe_from_id:
  "distinct (map name rs) \<Longrightarrow> name ` set rs \<inter> seen = {} \<Longrightarrow> dedupe_from seen rs = rs"
  by (induction rs arbitrary: seen) auto

text \<open>
  C4. Of the records that share a name, \<open>dedupeByName\<close> keeps exactly the first: its
  result is the input restricted to the positions that no earlier position shares a
  name with, in the input's order, so the names of the result are distinct. On pinned
  records followed by primary ones, the pinned records (deduplicated) come through and
  only the primary records whose name no pinned record bears follow them. An input
  whose names are distinct is returned as it is.
\<close>

theorem dedupeByName_keeps_first:
  "dedupeByName arr = nths arr {i. \<forall>j<i. name (arr ! j) \<noteq> name (arr ! i)}
   \<and> distinct (map name (dedupeByName arr))
   \<and> dedupeByName (pinned @ mapped) =
       dedupeByName pinned @ dedupeByName (filter (\<lambda>r. name r \<notin> name ` set pinned) mapped)
   \<and> (distinct (map name arr) \<longrightarrow> dedupeByName arr = arr)"
  unfolding dedupeByName_def
  using dedupe_from_nths [of "{}" arr] dedupe_from_distinct [of "{}" arr]
    dedupe_from_append [of "{}" pinned mapped]
    dedupe_from_filter [of "name ` set pinned" "{}" mapped]
    dedupe_from_id [of arr "{}"]
  by simp

theorem dedupeByName_keeps_first_witness:
  "distinct (map name [sample ''a'' 1 None, sample ''b'' 2 None])
   \<and> dedupeByName [sample ''a'' 1 None, sample ''b'' 2 None]
       = [sample ''a'' 1 None, sample ''b'' 2 None]
   \<and> dedupeByName ([sample ''a'' 1 None] @ [sample ''a'' 7 None, sample ''b'' 2 None])
       = [sample ''a'' 1 None, sample ''b'' 2 None]
   \<and> nths [sample ''a'' 1 None, sample ''a'' 7 None, sample ''b'' 2 None]
         {i. \<forall>j<i. name ([sample ''a'' 1 None, sample ''a'' 7 None, sample ''b'' 2 None] ! j)
                    \<noteq> name ([sample ''a'' 1 None, sample ''a'' 7 None, sample ''b'' 2 None] ! i)}
       = [sample ''a'' 1 None, sample ''b'' 2 None]"
proof -
  let ?xs = "[sample ''a'' 1 None, sample ''a'' 7 None, sample ''b'' 2 None]"
  let ?ys = "[sample ''a'' 1 None, sample ''b'' 2 None]"
  have d: "distinct (map name ?ys)"
    by (simp add: sample_def str_def)
  have e: "dedupeByName ([sample ''a'' 1 None] @ [sample ''a'' 7 None, sample ''b'' 2 None]) = ?ys"
    by (simp add: sample_def str_def dedupeByName_def)
  have e': "dedupeByName ?xs = ?ys"
    using e by simp
  have n: "dedupeByName ?xs = nths ?xs {i. \<forall>j<i. name (?xs ! j) \<noteq> name (?xs ! i)}"
    using dedupeByName_keeps_first [of ?xs "[]" "[]"] by blast
  have i: "dedupeByName ?ys = ?ys"
    using dedupeByName_keeps_first [of ?ys "[]" "[]"] d by blast
  show ?thesis
    by (intro conjI) (rule d, rule i, rule e, rule trans [OF n [symmetric] e'])
qed

section \<open>Properties of the merge-time order\<close>

lemma mset_insort_cmp: "mset (insort_cmp cmp x ys) = add_mset x (mset ys)"
  by (induction ys) auto

lemma mset_sort_cmp: "mset (sort_cmp cmp xs) = mset xs"
  unfolding sort_cmp_def by (induction xs) (auto simp: mset_insort_cmp)

lemma set_insort_cmp: "set (insort_cmp cmp x ys) = insert x (set ys)"
  by (induction ys) auto

lemma sorted_insort_cmp:
  assumes total: "\<And>a b. cmp a b \<le> 0 \<or> cmp b a \<le> 0"
    and trans: "\<And>a b c. cmp a b \<le> 0 \<Longrightarrow> cmp b c \<le> 0 \<Longrightarrow> cmp a c \<le> 0"
  shows "sorted_wrt (\<lambda>a b. cmp a b \<le> 0) ys \<Longrightarrow> sorted_wrt (\<lambda>a b. cmp a b \<le> 0) (insort_cmp cmp x ys)"
proof (induction ys)
  case Nil
  then show ?case by simp
next
  case (Cons y ys)
  show ?case
  proof (cases "cmp x y \<le> 0")
    case True
    with Cons.prems trans show ?thesis by auto
  next
    case False
    with total have "cmp y x \<le> 0" by blast
    with False Cons show ?thesis by (auto simp: set_insort_cmp)
  qed
qed

lemma sorted_sort_cmp:
  assumes total: "\<And>a b. cmp a b \<le> 0 \<or> cmp b a \<le> 0"
    and trans: "\<And>a b c. cmp a b \<le> 0 \<Longrightarrow> cmp b c \<le> 0 \<Longrightarrow> cmp a c \<le> 0"
  shows "sorted_wrt (\<lambda>a b. cmp a b \<le> 0) (sort_cmp cmp xs)"
  unfolding sort_cmp_def
  by (induction xs) (auto intro: sorted_insort_cmp [OF total trans])

lemma merge_compare_le:
  "(merge_compare pf pinned a b \<le> 0) =
     ((if pf then pinned_rank pinned a else 0) < (if pf then pinned_rank pinned b else 0)
      \<or> (if pf then pinned_rank pinned a else 0) = (if pf then pinned_rank pinned b else 0)
        \<and> (stars b < stars a \<or> stars a = stars b \<and> date_ms (updated b) \<le> date_ms (updated a)))"
  by (auto simp: merge_compare_def Let_def pinned_rank_def)

lemma merge_compare_total: "merge_compare pf pinned a b \<le> 0 \<or> merge_compare pf pinned b a \<le> 0"
  unfolding merge_compare_le by auto

lemma merge_compare_trans:
  "merge_compare pf pinned a b \<le> 0 \<Longrightarrow> merge_compare pf pinned b c \<le> 0 \<Longrightarrow> merge_compare pf pinned a c \<le> 0"
  unfolding merge_compare_le by (auto split: if_splits)

lemma merge_compare_less:
  "(merge_compare pf pinned a b < 0) =
     (pf \<and> pinned_rank pinned a < pinned_rank pinned b
      \<or> (pf \<longrightarrow> pinned_rank pinned a = pinned_rank pinned b)
        \<and> (stars b < stars a \<or> stars a = stars b \<and> date_ms (updated b) < date_ms (updated a)))"
  by (auto simp: merge_compare_def Let_def pinned_rank_def)

lemma merge_example:
  assumes "stars A = 10" "stars B = 10" "stars C = 5" "updated A = Some t1" "updated B = Some t2"
    "t1 < t2" "pf \<longrightarrow> pinned_rank pinned A = pinned_rank pinned B \<and> pinned_rank pinned B = pinned_rank pinned C"
  shows "list_all (\<lambda>xs. sort_cmp (merge_compare pf pinned) xs = [B, A, C])
           [[A, B, C], [A, C, B], [B, A, C], [B, C, A], [C, A, B], [C, B, A]]"
  using assms by (cases pf) (simp_all add: sort_cmp_def merge_compare_def Let_def date_ms_def)

text \<open>
  C5. The merge-time sort permutes the merged records into the order of its comparator,
  which puts \<open>a\<close> strictly before \<open>b\<close> exactly when, with \<^verbatim>\<open>pinnedFirst\<close>, \<open>a\<close> bears
  a pinned name and \<open>b\<close> does not, or else (their pinned membership equal, or
  \<^verbatim>\<open>pinnedFirst\<close> off) \<open>a\<close> has more stars, or as many and a later \<^verbatim>\<open>updated\<close>. A
  record without \<^verbatim>\<open>updated\<close> is ordered after a record of the same stars and
  membership that has one (any instant after the epoch). Records \<open>A\<close> (10 stars,
  \<open>t1\<close>), \<open>B\<close> (10 stars, \<open>t2 > t1\<close>) and \<open>C\<close> (5 stars) of one pinned membership
  come out as \<open>B, A, C\<close> from each of their six orders, whatever \<^verbatim>\<open>pinnedFirst\<close> is.
\<close>

theorem merge_order:
  "mset (sort_cmp (merge_compare pf pinned) xs) = mset xs
   \<and> sorted_wrt (\<lambda>a b. merge_compare pf pinned a b \<le> 0) (sort_cmp (merge_compare pf pinned) xs)
   \<and> (merge_compare pf pinned a b < 0) =
        (pf \<and> pinned_rank pinned a < pinned_rank pinned b
         \<or> (pf \<longrightarrow> pinned_rank pinned a = pinned_rank pinned b)
           \<and> (stars b < stars a
               \<or> stars a = stars b \<and> date_ms (updated b) < date_ms (updated a)))
   \<and> pinned_rank pinned a = (if name a \<in> name ` set pinned then 0 else 1)
   \<and> (updated a = None \<and> updated b = Some t \<and> 0 < t \<and> stars a = stars b
        \<and> (pf \<longrightarrow> pinned_rank pinned a = pinned_rank pinned b)
      \<longrightarrow> merge_compare pf pinned b a < 0)
   \<and> (stars A = 10 \<and> stars B = 10 \<and> stars C = 5 \<and> updated A = Some t1 \<and> updated B = Some t2
        \<and> t1 < t2
        \<and> (pf \<longrightarrow> pinned_rank pinned A = pinned_rank pinned B
                  \<and> pinned_rank pinned B = pinned_rank pinned C)
      \<longrightarrow> list_all (\<lambda>xs. sort_cmp (merge_compare pf pinned) xs = [B, A, C])
            [[A, B, C], [A, C, B], [B, A, C], [B, C, A], [C, A, B], [C, B, A]])"
proof (intro conjI)
  show "mset (sort_cmp (merge_compare pf pinned) xs) = mset xs"
    by (rule mset_sort_cmp)
  show "sorted_wrt (\<lambda>a b. merge_compare pf pinned a b \<le> 0) (sort_cmp (merge_compare pf pinned) xs)"
    by (rule sorted_sort_cmp [OF merge_compare_total merge_compare_trans])
  show "(merge_compare pf pinned a b < 0) =
        (pf \<and> pinned_rank pinned a < pinned_rank pinned b
         \<or> (pf \<longrightarrow> pinned_rank pinned a = pinned_rank pinned b)
           \<and> (stars b < stars a
               \<or> stars a = stars b \<and> date_ms (updated b) < date_ms (updated a)))"
    by (rule merge_compare_less)
  show "pinned_rank pinned a = (if name a \<in> name ` set pinned then 0 else 1)"
    unfolding pinned_rank_def by (metis (mono_tags, lifting) image_iff)
  show "updated a = None \<and> updated b = Some t \<and> 0 < t \<and> stars a = stars b
        \<and> (pf \<longrightarrow> pinned_rank pinned a = pinned_rank pinned b)
      \<longrightarrow> merge_compare pf pinned b a < 0"
    by (auto simp: merge_compare_less date_ms_def)
  show "stars A = 10 \<and> stars B = 10 \<and> stars C = 5 \<and> updated A = Some t1 \<and> updated B = Some t2
        \<and> t1 < t2
        \<and> (pf \<longrightarrow> pinned_rank pinned A = pinned_rank pinned B
                  \<and> pinned_rank pinned B = pinned_rank pinned C)
      \<longrightarrow> list_all (\<lambda>xs. sort_cmp (merge_compare pf pinned) xs = [B, A, C])
            [[A, B, C], [A, C, B], [B, A, C], [B, C, A], [C, A, B], [C, B, A]]"
    using merge_example [of A B C t1 t2 pf pinned] by blast
qed


theorem merge_order_witness:
  "stars (sample ''a'' 10 (Some 100)) = 10 \<and> stars (sample ''b'' 10 (Some 200)) = 10
   \<and> stars (sample ''c'' 5 None) = 5
   \<and> updated (sample ''a'' 10 (Some 100)) = Some 100
   \<and> updated (sample ''b'' 10 (Some 200)) = Some 200 \<and> (100 :: int) < 200
   \<and> pinned_rank [] (sample ''a'' 10 (Some 100)) = pinned_rank [] (sample ''b'' 10 (Some 200))
   \<and> pinned_rank [] (sample ''b'' 10 (Some 200)) = pinned_rank [] (sample ''c'' 5 None)
   \<and> sort_cmp (merge_compare True [])
        [sample ''c'' 5 None, sample ''a'' 10 (Some 100), sample ''b'' 10 (Some 200)]
       = [sample ''b'' 10 (Some 200), sample ''a'' 10 (Some 100), sample ''c'' 5 None]
   \<and> sort_cmp (merge_compare False [])
        [sample ''a'' 10 (Some 100), sample ''c'' 5 None, sample ''b'' 10 (Some 200)]
       = [sample ''b'' 10 (Some 200), sample ''a'' 10 (Some 100), sample ''c'' 5 None]
   \<and> updated (sample ''c'' 10 None) = None \<and> (0 :: int) < 100
   \<and> merge_compare True [] (sample ''a'' 10 (Some 100)) (sample ''c'' 10 None) < 0"
proof -
  let ?A = "sample ''a'' 10 (Some 100)" and ?B = "sample ''b'' 10 (Some 200)"
  let ?C = "sample ''c'' 5 None" and ?D = "sample ''c'' 10 None"
  have h: "stars ?A = 10 \<and> stars ?B = 10 \<and> stars ?C = 5 \<and> updated ?A = Some 100
        \<and> updated ?B = Some 200 \<and> (100 :: int) < 200"
    by (simp add: sample_def)
  have k: "pinned_rank [] ?A = pinned_rank [] ?B \<and> pinned_rank [] ?B = pinned_rank [] ?C"
    by (simp add: pinned_rank_def)
  have g: "updated ?D = None \<and> updated ?A = Some 100 \<and> (0 :: int) < 100 \<and> stars ?D = stars ?A
    \<and> (True \<longrightarrow> pinned_rank [] ?D = pinned_rank [] ?A)"
    by (simp add: sample_def pinned_rank_def)
  from h k merge_order [of True "[]" "[]" ?D ?A 100 ?A ?B ?C 100 200]
  have t: "list_all (\<lambda>xs. sort_cmp (merge_compare True []) xs = [?B, ?A, ?C])
            [[?A, ?B, ?C], [?A, ?C, ?B], [?B, ?A, ?C], [?B, ?C, ?A], [?C, ?A, ?B], [?C, ?B, ?A]]"
    by blast
  from h k merge_order [of False "[]" "[]" ?D ?A 100 ?A ?B ?C 100 200]
  have f: "list_all (\<lambda>xs. sort_cmp (merge_compare False []) xs = [?B, ?A, ?C])
            [[?A, ?B, ?C], [?A, ?C, ?B], [?B, ?A, ?C], [?B, ?C, ?A], [?C, ?A, ?B], [?C, ?B, ?A]]"
    by blast
  from g merge_order [of True "[]" "[]" ?D ?A 100 ?A ?B ?C 100 200]
  have m: "merge_compare True [] ?A ?D < 0"
    by blast
  from h k g t f m show ?thesis by simp
qed

section \<open>Properties of the exclusion patterns\<close>

lemma filter_throwing_kept:
  "filter_throwing f xs = Inr ys \<Longrightarrow> ys = filter (\<lambda>x. f x = Inr True) xs"
  by (induction xs arbitrary: ys) (auto split: sum.splits if_splits)

lemma matchesPattern_no_hit:
  "matchesPattern regexp n pats = Inr False \<Longrightarrow> p \<in> set pats \<Longrightarrow> regexp (rx_source p) n = Inr False"
  by (induction pats) (auto split: sum.splits bool.splits)

lemma primary_listing_excludes:
  assumes "filter_throwing (keep_fetched regexp pats) fetched = Inr kept"
    and "x \<in> set kept" and "p \<in> set pats"
  shows "regexp (rx_source p) (api_name x) = Inr False"
proof -
  from assms(1,2) have "keep_fetched regexp pats x = Inr True"
    by (auto dest: filter_throwing_kept)
  then have "matchesPattern regexp (api_name x) pats = Inr False"
    by (auto simp: keep_fetched_def split: if_splits sum.splits)
  then show ?thesis using assms(3) by (rule matchesPattern_no_hit)
qed


section \<open>Properties of the fallback\<close>

lemma includes_str_empty: "includes_str hay [] = True"
  by (cases hay) simp_all

lemma filtered_unfiltered:
  "trim (lower (search_value ui)) = [] \<Longrightarrow> lang_value ui = [] \<Longrightarrow> topic_value ui = [] \<Longrightarrow>
     \<not> pinnedOnly_checked ui \<Longrightarrow> filtered lower pf rs ui = rs"
  by (simp add: filtered_def)

lemma loadCache_Some:
  "(loadCache now st = Some rs) =
     (readable st \<and> (\<exists>t. slot st = Some (Entry (Some t) (Some rs)) \<and> t \<noteq> 0
        \<and> now - t \<le> 3600000))"
  by (auto simp: loadCache_def CACHE_TTL_def split: option.splits stored.splits)

text \<open>
  C1, as the code has it. \<open>loadCache\<close> returns a record set exactly when the storage
  can be read and holds an entry with a timestamp other than zero, with data, and at
  most one hour (3600000 ms) old; that set is the entry's data. When the primary fetch
  fails, the record set is the one \<open>loadCache\<close> returned before the fetch, and in every
  other case (no entry, an entry that does not parse, no timestamp or a zero one, no
  data, storage that cannot be read, an entry older than one hour) it is the
  placeholder alone, named \<^verbatim>\<open>profile\<close>; the storage is left as it was. With no filter
  set, the grid is rendered from the record set as it is.
\<close>

theorem fetch_failure_fallback:
  assumes url: "parseGithubProfile (profileUrl cfg) \<noteq> None"
    and root: "root_present e"
    and rest: "rest_result e = None"
  shows "(loadCache (clock_start e) (store e) = Some cached) =
           (readable (store e)
            \<and> (\<exists>t. slot (store e) = Some (Entry (Some t) (Some cached)) \<and> t \<noteq> 0
                  \<and> clock_start e - t \<le> 3600000))
     \<and> (loadCache (clock_start e) (store e) = Some cached \<longrightarrow>
          initProjects regexp cfg e = Inr (cached, store e))
     \<and> (loadCache (clock_start e) (store e) = None \<longrightarrow>
          initProjects regexp cfg e = Inr ([placeholder (clock_settled e)], store e))
     \<and> (readable (store e) \<and> slot (store e) = Some (Entry (Some t) (Some cached)) \<and> t \<noteq> 0
          \<and> clock_start e - t \<le> 3600000
        \<longrightarrow> initProjects regexp cfg e = Inr (cached, store e))
     \<and> (slot (store e) = Some (Entry (Some t) (Some cached)) \<and> 3600000 < clock_start e - t
        \<longrightarrow> initProjects regexp cfg e = Inr ([placeholder (clock_settled e)], store e))
     \<and> (slot (store e) = None \<or> slot (store e) = Some Corrupt
          \<or> slot (store e) = Some (Entry None dat) \<or> slot (store e) = Some (Entry (Some 0) dat)
          \<or> slot (store e) = Some (Entry ts None) \<or> \<not> readable (store e)
        \<longrightarrow> initProjects regexp cfg e = Inr ([placeholder (clock_settled e)], store e))
     \<and> name (placeholder (clock_settled e)) = str ''profile''
     \<and> (trim (lower (search_value ui)) = [] \<and> lang_value ui = [] \<and> topic_value ui = []
          \<and> \<not> pinnedOnly_checked ui \<and> sort_value ui = str ''pinned''
        \<longrightarrow> applyFilters lower collate now (pinnedFirst cfg) rs ui = renderGrid now rs)"
proof -
  from url obtain u where u: "parseGithubProfile (profileUrl cfg) = Some u" by auto
  have i: "initProjects regexp cfg e
      = Inr (fallback (loadCache (clock_start e) (store e)) (clock_settled e), store e)"
    unfolding initProjects_def u by (simp add: root rest)
  have a: "(loadCache (clock_start e) (store e) = Some cached) =
           (readable (store e)
            \<and> (\<exists>t. slot (store e) = Some (Entry (Some t) (Some cached)) \<and> t \<noteq> 0
                  \<and> clock_start e - t \<le> 3600000))"
    by (rule loadCache_Some)
  have b: "loadCache (clock_start e) (store e) = Some cached \<longrightarrow>
          initProjects regexp cfg e = Inr (cached, store e)"
    by (simp add: i fallback_def)
  have c: "loadCache (clock_start e) (store e) = None \<longrightarrow>
          initProjects regexp cfg e = Inr ([placeholder (clock_settled e)], store e)"
    by (simp add: i fallback_def)
  have d: "readable (store e) \<and> slot (store e) = Some (Entry (Some t) (Some cached)) \<and> t \<noteq> 0
          \<and> clock_start e - t \<le> 3600000
        \<longrightarrow> initProjects regexp cfg e = Inr (cached, store e)"
    using a b by blast
  have f: "slot (store e) = Some (Entry (Some t) (Some cached)) \<and> 3600000 < clock_start e - t
        \<longrightarrow> initProjects regexp cfg e = Inr ([placeholder (clock_settled e)], store e)"
    by (simp add: i fallback_def loadCache_def CACHE_TTL_def)
  have g: "slot (store e) = None \<or> slot (store e) = Some Corrupt
          \<or> slot (store e) = Some (Entry None dat) \<or> slot (store e) = Some (Entry (Some 0) dat)
          \<or> slot (store e) = Some (Entry ts None) \<or> \<not> readable (store e)
        \<longrightarrow> initProjects regexp cfg e = Inr ([placeholder (clock_settled e)], store e)"
    by (auto simp: i fallback_def loadCache_def split: option.splits)
  have h: "name (placeholder (clock_settled e)) = str ''profile''"
    by (simp add: placeholder_def)
  have k: "trim (lower (search_value ui)) = [] \<and> lang_value ui = [] \<and> topic_value ui = []
          \<and> \<not> pinnedOnly_checked ui \<and> sort_value ui = str ''pinned''
        \<longrightarrow> applyFilters lower collate now (pinnedFirst cfg) rs ui = renderGrid now rs"
    by (simp add: applyFilters_def filtered_unfiltered sorted_for_def str_def)
  from a b c d f g h k show ?thesis by (intro conjI)
qed

theorem fetch_failure_fallback_witness:
  "parseGithubProfile (profileUrl (sample_config [] None)) \<noteq> None
   \<and> root_present (sample_env (Some (Entry (Some 1) (Some [sample ''a'' 1 None]))) 3600001 None None)
   \<and> rest_result (sample_env (Some (Entry (Some 1) (Some [sample ''a'' 1 None]))) 3600001 None None)
      = None
   \<and> initProjects no_match (sample_config [] None)
       (sample_env (Some (Entry (Some 1) (Some [sample ''a'' 1 None]))) 3600001 None None)
     = Inr ([sample ''a'' 1 None],
            sample_storage (Some (Entry (Some 1) (Some [sample ''a'' 1 None]))))
   \<and> initProjects no_match (sample_config [] None) (sample_env (Some Corrupt) 3600001 None None)
     = Inr ([placeholder 3600002], sample_storage (Some Corrupt))
   \<and> applyFilters ascii_lower (\<lambda>a b. 0) 0 True [sample ''a'' 1 None] (sample_controls [] [] False)
     = Grid [buildCard 0 (sample ''a'' 1 None)]"
proof -
  let ?cfg = "sample_config [] None"
  let ?e = "sample_env (Some (Entry (Some 1) (Some [sample ''a'' 1 None]))) 3600001 None None"
  let ?e' = "sample_env (Some Corrupt) 3600001 None None"
  let ?ui = "sample_controls [] [] False"
  have u: "parseGithubProfile (profileUrl ?cfg) \<noteq> None"
    by (simp add: model_defs sample_defs)
  have r: "root_present ?e" and f: "rest_result ?e = None"
    and r': "root_present ?e'" and f': "rest_result ?e' = None"
    by (simp_all add: sample_defs)
  have c: "readable (store ?e) \<and> slot (store ?e) = Some (Entry (Some 1) (Some [sample ''a'' 1 None]))
      \<and> (1 :: int) \<noteq> 0 \<and> clock_start ?e - 1 \<le> 3600000"
    by (simp add: sample_defs)
  have c': "slot (store ?e') = Some Corrupt"
    by (simp add: sample_defs)
  have q: "trim (ascii_lower (search_value ?ui)) = [] \<and> lang_value ?ui = [] \<and> topic_value ?ui = []
          \<and> \<not> pinnedOnly_checked ?ui \<and> sort_value ?ui = str ''pinned''"
    by (simp add: sample_defs str_def trim_def)
  have p: "pinnedFirst ?cfg = True"
    and s: "store ?e = sample_storage (Some (Entry (Some 1) (Some [sample ''a'' 1 None])))"
    and s': "store ?e' = sample_storage (Some Corrupt)" and k': "clock_settled ?e' = 3600002"
    by (simp_all add: sample_defs)
  note t = fetch_failure_fallback [OF u r f, where cached = "[sample ''a'' 1 None]" and t = 1
      and regexp = no_match and lower = ascii_lower and ui = ?ui and collate = "\<lambda>a b. 0"
      and now = 0 and rs = "[sample ''a'' 1 None]"]
  note t' = fetch_failure_fallback [OF u r' f', where regexp = no_match]
  from t c have "initProjects no_match ?cfg ?e = Inr ([sample ''a'' 1 None], store ?e)"
    by blast
  then have i: "initProjects no_match ?cfg ?e = Inr ([sample ''a'' 1 None],
            sample_storage (Some (Entry (Some 1) (Some [sample ''a'' 1 None]))))"
    by (simp only: s)
  from t' c' have "initProjects no_match ?cfg ?e' = Inr ([placeholder (clock_settled ?e')], store ?e')"
    by blast
  then have i': "initProjects no_match ?cfg ?e' = Inr ([placeholder 3600002], sample_storage (Some Corrupt))"
    by (simp only: s' k')
  from t q have "applyFilters ascii_lower (\<lambda>a b. 0) 0 (pinnedFirst ?cfg) [sample ''a'' 1 None] ?ui
      = renderGrid 0 [sample ''a'' 1 None]"
    by blast
  then have a: "applyFilters ascii_lower (\<lambda>a b. 0) 0 True [sample ''a'' 1 None] ?ui
     = Grid [buildCard 0 (sample ''a'' 1 None)]"
    by (simp add: p renderGrid_def)
  from u r f i i' a show ?thesis by (intro conjI)
qed

text \<open>
  With a stored entry older than one hour and a failing fetch, the placeholder is
  rendered, not the stored set.
\<close>

theorem stale_cache_not_used:
  "slot (store (sample_env (Some (Entry (Some 1) (Some [sample ''a'' 1 None]))) 3600002 None None))
     = Some (Entry (Some 1) (Some [sample ''a'' 1 None]))
   \<and> rest_result (sample_env (Some (Entry (Some 1) (Some [sample ''a'' 1 None]))) 3600002 None None)
     = None
   \<and> initProjects no_match (sample_config [] None)
       (sample_env (Some (Entry (Some 1) (Some [sample ''a'' 1 None]))) 3600002 None None)
     = Inr ([placeholder 3600003],
            sample_storage (Some (Entry (Some 1) (Some [sample ''a'' 1 None]))))
   \<and> [placeholder 3600003] \<noteq> [sample ''a'' 1 None]"
  by (simp add: model_defs sample_defs)

section \<open>Properties of the cache\<close>

text \<open>
  C6. A record set written to a storage that accepts the write and the read, at a
  clock reading other than zero, is read back as it was at any time up to one hour
  (3600000 ms) after the write, and reading later than that gives nothing.
\<close>

theorem cache_round_trip:
  assumes "writable st" and "readable st" and "t_write \<noteq> 0"
  shows "(now - t_write \<le> 3600000 \<longrightarrow> loadCache now (saveCache t_write obj st) = Some obj)
       \<and> (3600000 < now - t_write \<longrightarrow> loadCache now (saveCache t_write obj st) = None)
       \<and> CACHE_TTL = 3600000"
  using assms by (simp add: loadCache_def saveCache_def CACHE_TTL_def)

theorem cache_round_trip_witness:
  "writable (sample_storage None) \<and> readable (sample_storage None) \<and> (1000 :: int) \<noteq> 0
   \<and> (3601000 :: int) - 1000 \<le> 3600000
   \<and> loadCache 3601000 (saveCache 1000 [sample ''a'' 1 None] (sample_storage None))
       = Some [sample ''a'' 1 None]
   \<and> (3600000 :: int) < 3601001 - 1000
   \<and> loadCache 3601001 (saveCache 1000 [sample ''a'' 1 None] (sample_storage None)) = None"
proof -
  have w: "writable (sample_storage None)" and r: "readable (sample_storage None)"
    by (simp_all add: sample_storage_def)
  have p: "(1000 :: int) \<noteq> 0" by simp
  from w r cache_round_trip [OF w r p, of 3601000 "[sample ''a'' 1 None]"]
    cache_round_trip [OF w r p, of 3601001 "[sample ''a'' 1 None]"]
  show ?thesis by simp
qed

section \<open>Properties of the relative-time formatter\<close>

lemma relativeTime_ranges:
  fixes d :: int
  shows "relativeTime now (Some (now - d)) =
     (if d < 60000 then show_int (d div 1000) @ str ''s''
      else if d < 3600000 then show_int (d div 60000) @ str ''m''
      else if d < 86400000 then show_int (d div 3600000) @ str ''h''
      else if d < 2592000000 then show_int (d div 86400000) @ str ''d''
      else if d < 31104000000 then show_int (d div 2592000000) @ str ''mo''
      else show_int (d div 31104000000) @ str ''y'')"
proof -
  have a: "d div 1000 div 60 = d div 60000" by (simp add: zdiv_zmult2_eq [symmetric])
  have b: "d div 60000 div 60 = d div 3600000" by (simp add: zdiv_zmult2_eq [symmetric])
  have c: "d div 3600000 div 24 = d div 86400000" by (simp add: zdiv_zmult2_eq [symmetric])
  have e: "d div 86400000 div 30 = d div 2592000000" by (simp add: zdiv_zmult2_eq [symmetric])
  have f: "d div 2592000000 div 12 = d div 31104000000" by (simp add: zdiv_zmult2_eq [symmetric])
  have s: "(d div 1000 < 60) = (d < 60000)" by linarith
  have m: "(d div 60000 < 60) = (d < 3600000)" by linarith
  have h: "(d div 3600000 < 24) = (d < 86400000)" by linarith
  have dd: "(d div 86400000 < 30) = (d < 2592000000)" by linarith
  have mo: "(d div 2592000000 < 12) = (d < 31104000000)" by linarith
  show ?thesis
    by (simp add: relativeTime_def Let_def a b c e f s m h dd mo)
qed

lemma largest_unit_cases:
  fixes d :: int
  assumes "1000 \<le> d"
  shows "\<exists>u. unit_ms u \<le> d \<and> (\<forall>v. unit_ms v \<le> d \<longrightarrow> unit_ms v \<le> unit_ms u)
           \<and> relativeTime now (Some (now - d)) = show_int (d div unit_ms u) @ unit_suffix u"
proof -
  have all: "(\<forall>v. P v) = (P Seconds \<and> P Minutes \<and> P Hours \<and> P Days \<and> P Months \<and> P Years)" for P
    by (metis time_unit.exhaust)
  consider "d < 60000" | "60000 \<le> d" "d < 3600000" | "3600000 \<le> d" "d < 86400000"
    | "86400000 \<le> d" "d < 2592000000" | "2592000000 \<le> d" "d < 31104000000" | "31104000000 \<le> d"
    by linarith
  then show ?thesis
  proof cases
    case 1 then show ?thesis using assms
      by (intro exI [of _ Seconds]) (simp add: relativeTime_ranges all)
  next
    case 2 then show ?thesis
      by (intro exI [of _ Minutes]) (simp add: relativeTime_ranges all)
  next
    case 3 then show ?thesis
      by (intro exI [of _ Hours]) (simp add: relativeTime_ranges all)
  next
    case 4 then show ?thesis
      by (intro exI [of _ Days]) (simp add: relativeTime_ranges all)
  next
    case 5 then show ?thesis
      by (intro exI [of _ Months]) (simp add: relativeTime_ranges all)
  next
    case 6 then show ?thesis
      by (intro exI [of _ Years]) (simp add: relativeTime_ranges all)
  qed
qed

text \<open>
  C8. For an age of at least one second, \<open>relativeTime\<close> prints the whole number of the
  largest unit that fits the age at least once, followed by the unit's suffix. 45
  seconds print as \<^verbatim>\<open>45s\<close>, 90 minutes as \<^verbatim>\<open>1h\<close>, 400 days as \<^verbatim>\<open>1y\<close> and 800 days as
  \<^verbatim>\<open>2y\<close>.
\<close>

theorem relativeTime_largest_unit:
  "(1000 \<le> now - t \<longrightarrow>
      (\<exists>u. unit_ms u \<le> now - t \<and> (\<forall>v. unit_ms v \<le> now - t \<longrightarrow> unit_ms v \<le> unit_ms u)
         \<and> relativeTime now (Some t) = show_int ((now - t) div unit_ms u) @ unit_suffix u))
   \<and> relativeTime now (Some (now - 45 * 1000)) = str ''45s''
   \<and> relativeTime now (Some (now - 90 * 60 * 1000)) = str ''1h''
   \<and> relativeTime now (Some (now - 400 * 24 * 60 * 60 * 1000)) = str ''1y''
   \<and> relativeTime now (Some (now - 800 * 24 * 60 * 60 * 1000)) = str ''2y''"
proof (intro conjI impI)
  assume "1000 \<le> now - t"
  from largest_unit_cases [OF this, of now]
  show "\<exists>u. unit_ms u \<le> now - t \<and> (\<forall>v. unit_ms v \<le> now - t \<longrightarrow> unit_ms v \<le> unit_ms u)
         \<and> relativeTime now (Some t) = show_int ((now - t) div unit_ms u) @ unit_suffix u"
    by simp
qed (simp_all add: relativeTime_def show_int_def show_nat.simps str_def)

theorem relativeTime_largest_unit_witness:
  "(1000 :: int) \<le> 7300000 - 100000
   \<and> unit_ms Hours \<le> 7300000 - 100000 \<and> 7300000 - 100000 < unit_ms Days
   \<and> relativeTime 7300000 (Some 100000) = str ''2h''
   \<and> (\<exists>u. unit_ms u \<le> 7300000 - 100000
         \<and> (\<forall>v. unit_ms v \<le> 7300000 - 100000 \<longrightarrow> unit_ms v \<le> unit_ms u)
         \<and> relativeTime 7300000 (Some 100000)
             = show_int ((7300000 - 100000) div unit_ms u) @ unit_suffix u)"
proof -
  have h: "(1000 :: int) \<le> 7300000 - 100000" by simp
  have v: "relativeTime 7300000 (Some 100000) = str ''2h''"
    by (simp add: relativeTime_def show_int_def show_nat.simps str_def)
  from h relativeTime_largest_unit [of 7300000 100000]
  have "\<exists>u. unit_ms u \<le> 7300000 - 100000
         \<and> (\<forall>v. unit_ms v \<le> 7300000 - 100000 \<longrightarrow> unit_ms v \<le> unit_ms u)
         \<and> relativeTime 7300000 (Some 100000)
             = show_int ((7300000 - 100000) div unit_ms u) @ unit_suffix u"
    by blast
  with h v show ?thesis by simp
qed

section \<open>Properties of the card\<close>

text \<open>
  C9. The text that a card inserts for the description (the sixth part of its markup,
  HTML-escaped) is the description itself when it has at most 120 characters, and its
  first 119 characters followed by the marker when it has more.
\<close>

theorem truncate_description:
  "card_parts now r ! 5 = escapeHtml (truncate_text (description r) 120)
   \<and> innerHTML (buildCard now r)
       = concat (take 5 (card_parts now r)) @ card_parts now r ! 5
           @ concat (drop 6 (card_parts now r))
   \<and> (120 < length (description r) \<longrightarrow>
        truncate_text (description r) 120 = take 119 (description r) @ ellipsis_marker
        \<and> length (take 119 (description r)) = 119)
   \<and> (length (description r) \<le> 120 \<longrightarrow> truncate_text (description r) 120 = description r)"
  by (auto simp: buildCard_def card_parts_def truncate_text_def slice0_def)

theorem truncate_description_witness:
  "120 < length (description ((sample ''a'' 0 None)\<lparr>description := replicate 130 65\<rparr>))
   \<and> truncate_text (replicate 130 65) 120 = replicate 119 65 @ [8218, 196, 182]
   \<and> length (description (sample ''a'' 0 None)) \<le> 120
   \<and> truncate_text (description (sample ''a'' 0 None)) 120 = description (sample ''a'' 0 None)"
proof -
  let ?r = "(sample ''a'' 0 None)\<lparr>description := replicate 130 65\<rparr>"
  have l: "120 < length (description ?r)" by simp
  have s: "length (description (sample ''a'' 0 None)) \<le> 120" by (simp add: sample_def)
  from l truncate_description [of 0 ?r]
  have "truncate_text (description ?r) 120 = take 119 (description ?r) @ ellipsis_marker"
    by blast
  then have a: "truncate_text (replicate 130 65) 120 = replicate 119 65 @ [8218, 196, 182]"
    by (simp add: ellipsis_marker_def)
  from s truncate_description [of 0 "sample ''a'' 0 None"]
  have b: "truncate_text (description (sample ''a'' 0 None)) 120 = description (sample ''a'' 0 None)"
    by blast
  from l s a b show ?thesis by (intro conjI)
qed

section \<open>Properties of the filter panel\<close>

text \<open>
  C10. With \<^verbatim>\<open>pinnedFirst\<close> false, a filter pass gives the same records and the same
  view whether the pinned-only box is checked or not.
\<close>

theorem pinnedOnly_ignored_without_pinnedFirst:
  "filtered lower False repos (ui\<lparr>pinnedOnly_checked := True\<rparr>)
     = filtered lower False repos (ui\<lparr>pinnedOnly_checked := False\<rparr>)
   \<and> applyFilters lower collate now False repos (ui\<lparr>pinnedOnly_checked := True\<rparr>)
     = applyFilters lower collate now False repos (ui\<lparr>pinnedOnly_checked := False\<rparr>)"
  by (simp add: applyFilters_def filtered_def)

lemma take_length_prefix: "(take (length q) xs = q) = (\<exists>post. xs = q @ post)"
  by (metis append_eq_conv_conj append_take_drop_id)

lemma includes_str_substring: "includes_str hay q = (\<exists>pre post. hay = pre @ q @ post)"
proof (induction hay)
  case Nil
  then show ?case by auto
next
  case (Cons c cs)
  have "(\<exists>pre post. c # cs = pre @ q @ post)
      = ((\<exists>post. c # cs = q @ post) \<or> (\<exists>pre post. cs = pre @ q @ post))"
    by (auto simp: Cons_eq_append_conv; blast)
  with Cons show ?case
    by (simp add: take_length_prefix del: take_Suc_Cons take_eq_Nil)
qed

lemma filtered_passes: "filtered lower pf repos ui = filter (passes lower pf repos ui) repos"
proof -
  have m: "(\<exists>p\<in>set (take 10 repos). name p = name r) = (name r \<in> name ` set (take 10 repos))" for r
    unfolding image_iff by (metis (mono_tags, lifting))
  show ?thesis
    unfolding filtered_def passes_def Let_def m
    by (auto simp: includes_str_empty intro!: filter_cong)
qed

lemma mset_sorted_for: "mset (sorted_for collate mode out) = mset out"
  by (simp add: sorted_for_def mset_sort_cmp)

text \<open>
  C7, as the code has it, \<open>lower\<close> being the host's \<^verbatim>\<open>toLowerCase\<close>, whatever it maps.
  A filter pass keeps exactly the records that pass the conjunction of: where
  \<^verbatim>\<open>pinnedFirst\<close> is set and the pinned-only box is checked, the name is one of the first
  ten records' names; the trimmed query in lower case is a substring of the lower-cased
  name, description and topics joined by spaces; the selected language, if any, has
  the record's language as its lower case; the selected topic, if any, has the lower
  case of one of the record's topics. The sort mode permutes
  the kept records. An empty result renders the empty-state message, any other result
  one card per kept record.
\<close>

theorem filter_pass:
  "filtered lower pf repos ui = filter (passes lower pf repos ui) repos
   \<and> includes_str hay q = (\<exists>pre post. hay = pre @ q @ post)
   \<and> mset (sorted_for collate (sort_value ui) (filtered lower pf repos ui)) = mset (filtered lower pf repos ui)
   \<and> applyFilters lower collate now pf repos ui
       = renderGrid now (sorted_for collate (sort_value ui) (filter (passes lower pf repos ui) repos))
   \<and> (filter (passes lower pf repos ui) repos = [] \<longrightarrow>
        applyFilters lower collate now pf repos ui = Empty_state (str ''No projects match your filters.''))
   \<and> (filter (passes lower pf repos ui) repos \<noteq> [] \<longrightarrow>
        applyFilters lower collate now pf repos ui
          = Grid (map (buildCard now)
                   (sorted_for collate (sort_value ui) (filter (passes lower pf repos ui) repos))))"
proof -
  have e: "(sorted_for collate (sort_value ui) xs = []) = (xs = [])" for xs
    using mset_sorted_for [of collate "sort_value ui" xs] by (metis mset_zero_iff)
  show ?thesis
    by (simp add: filtered_passes includes_str_substring mset_sorted_for applyFilters_def
        renderGrid_def e)
qed

theorem filter_pass_witness:
  "filter (passes ascii_lower True [tagged ''foo'' ''Go'' ''cli'', tagged ''bar'' ''Rust'' ''web'']
            (sample_controls ''foo'' ''Rust'' False))
      [tagged ''foo'' ''Go'' ''cli'', tagged ''bar'' ''Rust'' ''web''] = []
   \<and> applyFilters ascii_lower (\<lambda>a b. 0) 0 True [tagged ''foo'' ''Go'' ''cli'', tagged ''bar'' ''Rust'' ''web'']
        (sample_controls ''foo'' ''Rust'' False)
       = Empty_state (str ''No projects match your filters.'')
   \<and> filtered ascii_lower True [tagged ''foo'' ''Go'' ''cli'', tagged ''bar'' ''Rust'' ''web'']
        (sample_controls ''foo'' [] False) = [tagged ''foo'' ''Go'' ''cli'']
   \<and> filtered ascii_lower True [tagged ''foo'' ''Go'' ''cli'', tagged ''bar'' ''Rust'' ''web'']
        (sample_controls [] ''Rust'' False) = [tagged ''bar'' ''Rust'' ''web'']"
proof -
  let ?rs = "[tagged ''foo'' ''Go'' ''cli'', tagged ''bar'' ''Rust'' ''web'']"
  have n: "filter (passes ascii_lower True ?rs (sample_controls ''foo'' ''Rust'' False)) ?rs = []"
    by (simp add: panel_defs model_defs sample_defs)
  have a: "filter (passes ascii_lower True ?rs (sample_controls ''foo'' [] False)) ?rs
      = [tagged ''foo'' ''Go'' ''cli'']"
    by (simp add: panel_defs model_defs sample_defs)
  have b: "filter (passes ascii_lower True ?rs (sample_controls [] ''Rust'' False)) ?rs
      = [tagged ''bar'' ''Rust'' ''web'']"
    by (simp add: panel_defs model_defs sample_defs)
  from n filter_pass [of ascii_lower True ?rs "sample_controls ''foo'' ''Rust'' False" "[]" "[]" "\<lambda>a b. 0" 0]
  have e: "applyFilters ascii_lower (\<lambda>a b. 0) 0 True ?rs (sample_controls ''foo'' ''Rust'' False)
       = Empty_state (str ''No projects match your filters.'')"
    by blast
  from a filter_pass [of ascii_lower True ?rs "sample_controls ''foo'' [] False" "[]" "[]" "\<lambda>a b. 0" 0]
  have a': "filtered ascii_lower True ?rs (sample_controls ''foo'' [] False) = [tagged ''foo'' ''Go'' ''cli'']"
    by simp
  from b filter_pass [of ascii_lower True ?rs "sample_controls [] ''Rust'' False" "[]" "[]" "\<lambda>a b. 0" 0]
  have b': "filtered ascii_lower True ?rs (sample_controls [] ''Rust'' False) = [tagged ''bar'' ''Rust'' ''web'']"
    by simp
  from n e a' b' show ?thesis by (intro conjI)
qed

text \<open>
  Eleven records with the pinned-only box checked: the eleventh passes the three
  conditions of the specification and is not kept. A query with a leading space: the
  record named \<^verbatim>\<open>foo\<close> is kept, though the query as typed is no substring of its text.
  All the text here is ASCII, on which \<^verbatim>\<open>toLowerCase\<close> is \<open>ascii_lower\<close>.
\<close>

theorem filter_beyond_conjunction:
  "filtered ascii_lower True eleven (sample_controls [] [] True) = take 10 eleven
   \<and> filter (claimed_keep ascii_lower (sample_controls [] [] True)) eleven = eleven
   \<and> take 10 eleven \<noteq> eleven
   \<and> filtered ascii_lower True [sample ''foo'' 0 None] (sample_controls '' foo'' [] False)
       = [sample ''foo'' 0 None]
   \<and> filter (claimed_keep ascii_lower (sample_controls '' foo'' [] False)) [sample ''foo'' 0 None] = []"
  by (simp add: panel_defs model_defs sample_defs)

section \<open>Properties of the card markup\<close>

lemma escapeHtml_no_markup:
  "60 \<notin> set (escapeHtml s) \<and> 62 \<notin> set (escapeHtml s) \<and> 34 \<notin> set (escapeHtml s)"
  by (auto simp: escapeHtml_def replace_all_def str_def split: if_splits)

lemma card_parts_escaped:
  "card_parts now r ! 3 = escapeHtml (description r)
   \<and> card_parts now r ! 5 = escapeHtml (truncate_text (description r) 120)
   \<and> card_parts now r ! 13 = escapeHtml (if language r = [] then [8218, 196, 238] else language r)
   \<and> card_parts now r ! 1 = name r
   \<and> chips (buildCard now r) = take 3 (topics r)"
  by (simp add: card_parts_def buildCard_def)

text \<open>
  C3. The description and the language pass through \<open>escapeHtml\<close>, and the topics are
  set as text, but the name is put into the markup as it is: for a record named
  \<^verbatim>\<open><img src=x onerror=alert(1)>\<close> the markup of the card holds that element inside
  the title, where the escaped name would be \<^verbatim>\<open>&lt;img src=x onerror=alert(1)&gt;\<close>.
\<close>

theorem name_inserted_unescaped:
  \<open>innerHTML (buildCard 0 (sample ''<img src=x onerror=alert(1)>'' 0 None))
     = str ''\<newline>    <div class="card-body">\<newline>      <div class="card-head">\<newline>        <h3 class="project-title">''
       @ str ''<img src=x onerror=alert(1)>''
       @ concat (drop 2 (card_parts 0 (sample ''<img src=x onerror=alert(1)>'' 0 None)))
   \<and> take 5 (concat (drop 2 (card_parts 0 (sample ''<img src=x onerror=alert(1)>'' 0 None))))
     = str ''</h3>''
   \<and> escapeHtml (str ''<img src=x onerror=alert(1)>'') = str ''&lt;img src=x onerror=alert(1)&gt;''\<close>
  by (simp add: buildCard_def card_parts_def sample_def str_def escapeHtml_def replace_all_def)

end
